theory Spec2Isabelle
  imports Complex_Main
begin

section \<open>Static RAM calculation of Netscript files (src/Script/RamCalculations.ts)\<close>

text \<open>
  The analyzer parses a script and the scripts it imports, follows the calls that
  start at \<open>main\<close>, and charges every call it cannot resolve to a declaration against
  the host's cost table.  The embedding follows the TypeScript source function by
  function.  JavaScript numbers are idealised as real numbers; values that are not
  numbers at run time (\<open>undefined\<close>, an object, a string) are kept apart from them.
\<close>

subsection \<open>Values, errors and the data model\<close>

text \<open>
  The run-time values a \<open>cost\<close> can hold.  \<open>JsObject\<close> is a nested object of the cost
  table, \<open>JsString\<close> a string that \<open>+\<close> produced from an object operand (its characters are
  not modelled), \<open>JsNaN\<close> the number NaN.
\<close>

datatype js_value = JsUndefined | JsNumber real | JsObject | JsString | JsNaN

text \<open>The members of the enum \<open>RamCalculationErrorCode\<close>.\<close>

datatype RamCalculationErrorCode = SyntaxError | ImportError | URLImportError

text \<open>
  What a \<open>throw\<close> can carry in this file: the class \<open>RamCalculationException\<close> with its
  \<open>code\<close> and \<open>message\<close>, the \<open>SyntaxError\<close> object of the AST front end, and the
  \<open>TypeError\<close> of the JavaScript engine (a property read on \<open>undefined\<close> or \<open>null\<close>).
  Only the first has a \<open>code\<close> field.
\<close>

datatype thrown =
    RamCalculationException RamCalculationErrorCode string
  | JsSyntaxError
  | JsTypeError

text \<open>The field read \<open>error?.code\<close>; \<open>None\<close> is \<open>undefined\<close>.\<close>

fun thrown_code :: "thrown \<Rightarrow> RamCalculationErrorCode option" where
  "thrown_code (RamCalculationException c message) = Some c"
| "thrown_code JsSyntaxError = None"
| "thrown_code JsTypeError = None"

datatype entry_type = Ns | Dom | Fn | Misc

record RamUsageEntry =
  type :: entry_type
  name :: string
  cost :: js_value

record RamCalculation =
  cost :: js_value
  entries :: "RamUsageEntry list option"

record ImportedModule =
  filePath :: string
  "alias" :: string
  "imports" :: "string list"

record DefinedFunction =
  name :: string
  namespace :: string
  filePath :: string

record FunctionTreeNode =
  fn :: DefinedFunction
  calledFunctions :: "DefinedFunction list"

record ParsedModule =
  filePath :: string
  importedModules :: "ImportedModule list"
  functionTree :: "FunctionTreeNode list"

record Script =
  filename :: string
  code :: string

subsection \<open>The cost table of the host\<close>

text \<open>
  \<open>RamCostConstants\<close> and \<open>RamCosts\<close> come from \<open>Netscript/RamCostGenerator\<close>, which is
  not part of the analyzer; they are parameters here.  \<open>RamCosts\<close> is one object: a key
  holds a number, a function of the player, or the nested object of a sub-API, whose
  keys hold numbers or functions of the player.  Properties inherited from the
  prototypes of JavaScript objects are not modelled.
\<close>

record RamCostConstants =
  ScriptBaseRamCost :: real
  ScriptHacknetNodesRamCost :: real
  ScriptDomRamCost :: real
  ScriptCorporationRamCost :: real

datatype 'p ram_cost = ConstantCost real | PlayerCost "'p \<Rightarrow> real"

datatype 'p table_value = Leaf "'p ram_cost" | SubApi "string \<Rightarrow> 'p ram_cost option"

type_synonym 'p RamCosts = "string \<Rightarrow> 'p table_value option"

subsection \<open>Library functions the analyzer calls\<close>

text \<open>
  \<open>String.prototype.split(".")\<close>: the segments between the dots; the empty string gives
  one empty segment.
\<close>

fun split_dot :: "string \<Rightarrow> string list" where
  "split_dot [] = [[]]"
| "split_dot (c # cs) =
     (if c = CHR ''.'' then [] # split_dot cs
      else (case split_dot cs of
              [] \<Rightarrow> [[c]]
            | s # ss \<Rightarrow> (c # s) # ss))"

text \<open>
  lodash \<open>uniqWith\<close>: the values in order of first occurrence; a value is dropped when
  the comparator relates an already kept value to it.  \<open>uniq\<close> compares with equality.
\<close>

definition uniqWith :: "'a list \<Rightarrow> ('a \<Rightarrow> 'a \<Rightarrow> bool) \<Rightarrow> 'a list" where
  "uniqWith array comparator =
     fold (\<lambda>v result. if list_ex (\<lambda>seen. comparator seen v) result then result
                       else result @ [v])
          array []"

definition uniq :: "'a list \<Rightarrow> 'a list" where
  "uniq array = uniqWith array (=)"

text \<open>\<open>_.isEqual\<close> on two plain objects with string fields is equality of the records.\<close>

definition isEqual :: "'a \<Rightarrow> 'a \<Rightarrow> bool" where
  "isEqual a b = (a = b)"

text \<open>
  The operator \<open>+\<close> on the values above: two numbers are added; with an object or a
  string operand the result is a string; otherwise the result is NaN.
\<close>

fun js_add :: "js_value \<Rightarrow> js_value \<Rightarrow> js_value" where
  "js_add (JsNumber a) (JsNumber b) = JsNumber (a + b)"
| "js_add JsObject _ = JsString"
| "js_add JsString _ = JsString"
| "js_add _ JsObject = JsString"
| "js_add _ JsString = JsString"
| "js_add _ _ = JsNaN"

text \<open>
  lodash \<open>sum\<close> (\<open>baseSum\<close>): \<open>undefined\<close> elements are skipped, the first other element
  starts the result, and every later one is added with \<open>+\<close>.  The empty array gives 0.
\<close>

definition baseSum :: "js_value list \<Rightarrow> js_value" where
  "baseSum array =
     fold (\<lambda>current result.
             if current \<noteq> JsUndefined
             then (if result = JsUndefined then current else js_add result current)
             else result)
          array JsUndefined"

definition lodash_sum :: "js_value list \<Rightarrow> js_value" where
  "lodash_sum array = (if array \<noteq> [] then baseSum array else JsNumber 0)"

subsection \<open>The cost reducer: \<open>calculateRamCost\<close>\<close>

definition specialKeyChecks :: "RamCostConstants \<Rightarrow> RamUsageEntry list" where
  "specialKeyChecks C =
     [\<lparr>type = Ns, name = ''ns.hacknet'', cost = JsNumber (ScriptHacknetNodesRamCost C)\<rparr>,
      \<lparr>type = Dom, name = ''document'', cost = JsNumber (ScriptDomRamCost C)\<rparr>,
      \<lparr>type = Dom, name = ''window'', cost = JsNumber (ScriptDomRamCost C)\<rparr>,
      \<lparr>type = Ns, name = ''ns.corporation'', cost = JsNumber (ScriptCorporationRamCost C)\<rparr>]"

text \<open>
  \<open>typeof cost === "function" ? cost(player) : cost\<close> on a number or a function of the
  cost table.
\<close>

fun actualCost :: "'p \<Rightarrow> 'p ram_cost \<Rightarrow> js_value" where
  "actualCost player (ConstantCost c) = JsNumber c"
| "actualCost player (PlayerCost f) = JsNumber (f player)"

text \<open>
  The callback of \<open>uniqueFunctions.map\<close>.  With a dotted namespace the read
  \<open>RamCosts[libPart][fn.name]\<close> throws a TypeError when \<open>RamCosts[libPart]\<close> is
  \<open>undefined\<close>; a number or a function there has no property \<open>fn.name\<close>, so \<open>?? 0\<close> gives 0.
  With an undotted namespace \<open>RamCosts[fn.name]\<close> is used as it is.

  The reads are lookups of own properties.  A key that every JavaScript object
  inherits (\<open>toString\<close>, \<open>constructor\<close>, \<open>hasOwnProperty\<close> and the like) is found by the
  code, as an inherited function, and not by this definition; a function or a segment
  with such a name is outside the model.
\<close>

definition entryFor ::
  "RamCostConstants \<Rightarrow> 'p RamCosts \<Rightarrow> 'p \<Rightarrow> DefinedFunction \<Rightarrow> thrown + RamUsageEntry" where
  "entryFor C RamCosts player f =
     (case find (\<lambda>sk. namespace f = RamUsageEntry.name sk) (specialKeyChecks C) of
        Some specialCost \<Rightarrow> Inr specialCost
      | None \<Rightarrow>
          (let splitNamespace = split_dot (namespace f) in
           if length splitNamespace > 1 then
             (let libPart = last splitNamespace in
              case RamCosts libPart of
                None \<Rightarrow> Inl JsTypeError
              | Some (Leaf v) \<Rightarrow>
                  Inr \<lparr>type = Ns, name = DefinedFunction.name f, cost = JsNumber 0\<rparr>
              | Some (SubApi lib) \<Rightarrow>
                  Inr \<lparr>type = Ns, name = DefinedFunction.name f,
                       cost = (case lib (DefinedFunction.name f) of
                                 None \<Rightarrow> JsNumber 0
                               | Some c \<Rightarrow> actualCost player c)\<rparr>)
           else
             (case RamCosts (DefinedFunction.name f) of
                None \<Rightarrow>
                  Inr \<lparr>type = Ns, name = DefinedFunction.name f, cost = JsUndefined\<rparr>
              | Some (Leaf c) \<Rightarrow>
                  Inr \<lparr>type = Ns, name = DefinedFunction.name f, cost = actualCost player c\<rparr>
              | Some (SubApi lib) \<Rightarrow>
                  Inr \<lparr>type = Ns, name = DefinedFunction.name f, cost = JsObject\<rparr>)))"

text \<open>\<open>Array.prototype.map\<close> with a callback that may throw: the first throw ends it.\<close>

fun map_throwing :: "('a \<Rightarrow> thrown + 'b) \<Rightarrow> 'a list \<Rightarrow> thrown + 'b list" where
  "map_throwing g [] = Inr []"
| "map_throwing g (x # xs) =
     (case g x of
        Inl e \<Rightarrow> Inl e
      | Inr y \<Rightarrow> (case map_throwing g xs of Inl e \<Rightarrow> Inl e | Inr ys \<Rightarrow> Inr (y # ys)))"

definition calculateRamCost ::
  "RamCostConstants \<Rightarrow> 'p RamCosts \<Rightarrow> 'p \<Rightarrow> DefinedFunction list \<Rightarrow> thrown + RamCalculation" where
  "calculateRamCost C RamCosts player functions =
     (let uniqueFunctions = uniqWith functions isEqual in
      case map_throwing (entryFor C RamCosts player) uniqueFunctions of
        Inl e \<Rightarrow> Inl e
      | Inr entries' \<Rightarrow>
          (let baseCost = \<lparr>type = Misc, name = ''baseCost'', cost = JsNumber (ScriptBaseRamCost C)\<rparr>;
               entriesWithBase = baseCost # entries';
               cost' = lodash_sum (map RamUsageEntry.cost entriesWithBase)
           in Inr \<lparr>cost = cost', entries = Some entries'\<rparr>))"

subsection \<open>The syntax tree of the AST front end\<close>

text \<open>
  The analyzer reads the tree that acorn builds (ESTree).  The node kinds it looks at
  are kept; every other kind is \<open>OtherNode\<close> with its child nodes in the order in which
  acorn-walk's default visitor walks them.  The property of a member expression and
  the names of import specifiers are identifiers (a computed property that is not an
  identifier, as in \<open>a[0]\<close>, is outside the model).  A declaration without a name
  (\<open>export default function () {}\<close>) has \<open>id = null\<close>.
\<close>

datatype specifier =
    ImportSpecifier string string
  | ImportDefaultSpecifier string
  | ImportNamespaceSpecifier string

datatype node =
    Identifier string
  | MemberExpression node string
  | CallExpression node "node list"
  | NewExpression node "node list"
  | ImportDeclaration "specifier list" string
  | FunctionDeclaration "string option" "node list" node
  | ClassDeclaration "string option" "node option" node
  | OtherNode "node list"

text \<open>The fields of \<open>FullNode\<close> that the analyzer reads; \<open>None\<close> is \<open>undefined\<close>.\<close>

fun node_name :: "node \<Rightarrow> string option" where
  "node_name (Identifier n) = Some n"
| "node_name _ = None"

fun node_object :: "node \<Rightarrow> node option" where
  "node_object (MemberExpression obj p) = Some obj"
| "node_object _ = None"

fun node_property_name :: "node \<Rightarrow> string option" where
  "node_property_name (MemberExpression obj p) = Some p"
| "node_property_name _ = None"

fun node_callee :: "node \<Rightarrow> node option" where
  "node_callee (CallExpression callee args) = Some callee"
| "node_callee (NewExpression callee args) = Some callee"
| "node_callee _ = None"

fun specifier_imported :: "specifier \<Rightarrow> string option" where
  "specifier_imported (ImportSpecifier imp loc) = Some imp"
| "specifier_imported _ = None"

fun specifier_local :: "specifier \<Rightarrow> string" where
  "specifier_local (ImportSpecifier imp loc) = loc"
| "specifier_local (ImportDefaultSpecifier loc) = loc"
| "specifier_local (ImportNamespaceSpecifier loc) = loc"

text \<open>A string in a condition: \<open>undefined\<close> and the empty string are falsy.\<close>

fun truthy :: "string option \<Rightarrow> bool" where
  "truthy None = False"
| "truthy (Some s) = (s \<noteq> [])"

subsection \<open>The module parser: \<open>NetscriptFileParser\<close>\<close>

text \<open>
  \<open>WithinFunctionParseState\<close> is the list of recorded calls, with the \<open>filePath\<close> that
  labels them; \<open>TopLevelParseState\<close> the two lists of a \<open>ParsedModule\<close>.
\<close>

definition recordFunctionCall ::
  "string \<Rightarrow> string \<Rightarrow> string \<Rightarrow> DefinedFunction list \<Rightarrow> DefinedFunction list" where
  "recordFunctionCall path nm nsp currentCalledFunctions =
     currentCalledFunctions @ [\<lparr>name = nm, namespace = nsp, filePath = path\<rparr>]"

text \<open>
  The ladder of \<open>recordFunctionCalls\<close> on the callee.  In its last case
  \<open>node.callee.property.name\<close> reads \<open>name\<close> of \<open>undefined\<close> when the callee is no member
  expression, which throws.
\<close>

definition calleeNames :: "node \<Rightarrow> thrown + (string \<times> string)" where
  "calleeNames callee =
     (if truthy (node_name callee) then Inr (the (node_name callee), [])
      else if truthy (Option.bind (Option.bind (node_object callee) node_object) node_name)
      then (case callee of
              MemberExpression (MemberExpression obj2 p2) p1 \<Rightarrow>
                Inr (p1, the (node_name obj2) @ ''.'' @ p2)
            | _ \<Rightarrow> Inl JsTypeError)
      else (case node_property_name callee of
              None \<Rightarrow> Inl JsTypeError
            | Some p \<Rightarrow>
                Inr (p,
                  (case Option.bind (node_object callee) node_name of
                     Some n \<Rightarrow> n
                   | None \<Rightarrow>
                       (case Option.bind (Option.bind (node_object callee) node_callee) node_name of
                          Some n \<Rightarrow> n
                        | None \<Rightarrow> [])))))"

text \<open>
  The walk inside a function or class body (\<open>withinBlockParsing\<close>): calls and \<open>new\<close>
  record a call and walk on into the callee only; a member expression records a
  reference and is not walked into; everything else is walked by the default visitor.
\<close>

fun walkBlock :: "string \<Rightarrow> node \<Rightarrow> DefinedFunction list \<Rightarrow> thrown + DefinedFunction list"
  and walkBlockList :: "string \<Rightarrow> node list \<Rightarrow> DefinedFunction list \<Rightarrow> thrown + DefinedFunction list"
where
  "walkBlock path (Identifier n) st = Inr st"
| "walkBlock path (MemberExpression obj p) st =
     Inr (recordFunctionCall path p (case node_name obj of Some n \<Rightarrow> n | None \<Rightarrow> []) st)"
| "walkBlock path (CallExpression callee args) st =
     (case calleeNames callee of
        Inl e \<Rightarrow> Inl e
      | Inr (fnName, fnNamespace) \<Rightarrow>
          walkBlock path callee (recordFunctionCall path fnName fnNamespace st))"
| "walkBlock path (NewExpression callee args) st =
     (case calleeNames callee of
        Inl e \<Rightarrow> Inl e
      | Inr (fnName, fnNamespace) \<Rightarrow>
          walkBlock path callee (recordFunctionCall path fnName fnNamespace st))"
| "walkBlock path (ImportDeclaration specifiers source) st = Inr st"
| "walkBlock path (FunctionDeclaration ident params body) st =
     (case walkBlockList path params st of
        Inl e \<Rightarrow> Inl e
      | Inr st' \<Rightarrow> walkBlock path body st')"
| "walkBlock path (ClassDeclaration ident superClass body) st =
     (case (case superClass of None \<Rightarrow> Inr st | Some superNode \<Rightarrow> walkBlock path superNode st) of
        Inl e \<Rightarrow> Inl e
      | Inr st' \<Rightarrow> walkBlock path body st')"
| "walkBlock path (OtherNode children) st = walkBlockList path children st"
| "walkBlockList path [] st = Inr st"
| "walkBlockList path (n # ns) st =
     (case walkBlock path n st of
        Inl e \<Rightarrow> Inl e
      | Inr st' \<Rightarrow> walkBlockList path ns st')"

text \<open>\<open>parseImport\<close>: the import entry recorded for an import declaration.\<close>

definition parseImport :: "specifier list \<Rightarrow> string \<Rightarrow> thrown + ImportedModule" where
  "parseImport specifiers sourcePath =
     (let isImportAll =
            (case specifiers of [] \<Rightarrow> True | s # rest \<Rightarrow> specifier_imported s = None)
      in if isImportAll then
           (let alias' = (case specifiers of [] \<Rightarrow> [] | s # rest \<Rightarrow> specifier_local s)
            in Inr \<lparr>ImportedModule.filePath = sourcePath, alias = alias', imports = [''*'']\<rparr>)
         else
           (case map_throwing
                   (\<lambda>n. case specifier_imported n of
                           None \<Rightarrow> Inl JsTypeError
                         | Some imp \<Rightarrow> Inr imp) specifiers of
              Inl e \<Rightarrow> Inl e
            | Inr imports' \<Rightarrow>
                Inr \<lparr>ImportedModule.filePath = sourcePath, alias = [], imports = imports'\<rparr>))"

text \<open>
  \<open>parseFunctionOrClass\<close>: the declared name is read from \<open>node.id\<close> (a TypeError when it
  is \<open>null\<close>), the body is walked, and the node is appended to the function tree.
\<close>

definition parseFunctionOrClass ::
  "string \<Rightarrow> string option \<Rightarrow> node \<Rightarrow> thrown + FunctionTreeNode" where
  "parseFunctionOrClass path ident body =
     (case ident of
        None \<Rightarrow> Inl JsTypeError
      | Some fnName \<Rightarrow>
          (case walkBlock path body [] of
             Inl e \<Rightarrow> Inl e
           | Inr currentCalledFunctions \<Rightarrow>
               Inr \<lparr>fn = \<lparr>name = fnName, namespace = [], filePath = path\<rparr>,
                    calledFunctions = currentCalledFunctions\<rparr>))"

text \<open>
  The walk at the top level (\<open>topLevelParsing\<close>) over a \<open>ParsedModule\<close> under
  construction: imports and declarations are recorded, everything else is walked by
  the default visitor.
\<close>

fun walkTop :: "node \<Rightarrow> ParsedModule \<Rightarrow> thrown + ParsedModule"
  and walkTopList :: "node list \<Rightarrow> ParsedModule \<Rightarrow> thrown + ParsedModule"
where
  "walkTop (Identifier n) st = Inr st"
| "walkTop (MemberExpression obj p) st = walkTop obj st"
| "walkTop (CallExpression callee args) st =
     (case walkTop callee st of
        Inl e \<Rightarrow> Inl e
      | Inr st' \<Rightarrow> walkTopList args st')"
| "walkTop (NewExpression callee args) st =
     (case walkTop callee st of
        Inl e \<Rightarrow> Inl e
      | Inr st' \<Rightarrow> walkTopList args st')"
| "walkTop (ImportDeclaration specifiers source) st =
     (case parseImport specifiers source of
        Inl e \<Rightarrow> Inl e
      | Inr m \<Rightarrow> Inr (st\<lparr>importedModules := importedModules st @ [m]\<rparr>))"
| "walkTop (FunctionDeclaration ident params body) st =
     (case parseFunctionOrClass (ParsedModule.filePath st) ident body of
        Inl e \<Rightarrow> Inl e
      | Inr ft \<Rightarrow> Inr (st\<lparr>functionTree := functionTree st @ [ft]\<rparr>))"
| "walkTop (ClassDeclaration ident superClass body) st =
     (case parseFunctionOrClass (ParsedModule.filePath st) ident body of
        Inl e \<Rightarrow> Inl e
      | Inr ft \<Rightarrow> Inr (st\<lparr>functionTree := functionTree st @ [ft]\<rparr>))"
| "walkTop (OtherNode children) st = walkTopList children st"
| "walkTopList [] st = Inr st"
| "walkTopList (n # ns) st =
     (case walkTop n st of
        Inl e \<Rightarrow> Inl e
      | Inr st' \<Rightarrow> walkTopList ns st')"

text \<open>
  \<open>parseScript\<close>.  The AST front end \<open>parse\<close> is a parameter: it gives the tree of a
  source text, or \<open>None\<close> when it throws its SyntaxError.
\<close>

definition parseScript ::
  "(string \<Rightarrow> node option) \<Rightarrow> string \<Rightarrow> string \<Rightarrow> thrown + ParsedModule" where
  "parseScript parse path src =
     (case parse src of
        None \<Rightarrow> Inl JsSyntaxError
      | Some ast \<Rightarrow>
          walkTop ast \<lparr>ParsedModule.filePath = path, importedModules = [], functionTree = []\<rparr>)"

subsection \<open>The link resolver: \<open>InvocationTreeBuilder\<close>\<close>

text \<open>
  What the resolver takes from outside: the AST front end, the predicate
  \<open>areImportsEquals\<close> of \<open>Terminal/DirectoryHelpers\<close>, and the dynamic import of a URL,
  which is rejected with a reason or gives a module object, a list of properties whose
  values are functions (with their source text) or something else.
\<close>

datatype exported = FunctionValue string | OtherValue

record host_io =
  parse :: "string \<Rightarrow> node option"
  areImportsEquals :: "string \<Rightarrow> string \<Rightarrow> bool"
  dynamicImport :: "string \<Rightarrow> string + (string \<times> exported) list"

definition startsWith :: "string \<Rightarrow> string \<Rightarrow> bool" where
  "startsWith s p = (take (length p) s = p)"

definition resolveExternalModule :: "host_io \<Rightarrow> string \<Rightarrow> thrown + string" where
  "resolveExternalModule io moduleUrl =
     (case dynamicImport io moduleUrl of
        Inl e \<Rightarrow>
          Inl (RamCalculationException URLImportError
                 (''Error dynamically importing module from '' @ moduleUrl @
                  '' for RAM calculations: '' @ e))
      | Inr moduleObject \<Rightarrow>
          Inr (concat (map (\<lambda>(prop, v). case v of
                                FunctionValue src \<Rightarrow> src @ [CHR '';'', CHR 0x0A]
                              | OtherValue \<Rightarrow> []) moduleObject)))"

text \<open>
  The loop of \<open>parseAll\<close> over the worklist \<open>modulesToParse\<close>, with the private field
  \<open>#parsedModules\<close> as an argument.  A chain of URL imports need not end, so the loop is
  a partial function: \<open>None\<close> is a loop that runs forever, \<open>Some (Inl e)\<close> a throw.
\<close>

partial_function (option) parseAll_loop ::
  "host_io \<Rightarrow> Script list \<Rightarrow> ParsedModule list \<Rightarrow> string list
     \<Rightarrow> (thrown + ParsedModule list) option" where
  "parseAll_loop io otherScripts parsedModules modulesToParse =
     (if modulesToParse = [] then Some (Inr parsedModules)
      else
        (let pathToParse = hd modulesToParse;
             rest = tl modulesToParse;
             normalizedPath =
               (if startsWith pathToParse ''./'' then drop 2 pathToParse else pathToParse)
         in
         if normalizedPath \<in> set (map ParsedModule.filePath parsedModules)
         then parseAll_loop io otherScripts parsedModules rest
         else
           (case (if startsWith pathToParse ''https://'' \<or> startsWith pathToParse ''http://''
                  then map_sum id Some (resolveExternalModule io pathToParse)
                  else Inr (map_option Script.code
                              (find (\<lambda>s. areImportsEquals io (filename s) normalizedPath)
                                 otherScripts))) of
              Inl e \<Rightarrow> Some (Inl e)
            | Inr None \<Rightarrow>
                Some (Inl (RamCalculationException ImportError
                             (''Imported module '' @ normalizedPath @
                              '' can'' @ [CHR 0x27] @ ''t be found'')))
            | Inr (Some src) \<Rightarrow>
                (case parseScript (parse io) normalizedPath src of
                   Inl e \<Rightarrow> Some (Inl e)
                 | Inr result \<Rightarrow>
                     parseAll_loop io otherScripts (parsedModules @ [result])
                       (rest @ map ImportedModule.filePath (importedModules result))))))"

text \<open>
  \<open>parseAll\<close> on a builder whose field is \<open>parsedModules\<close>; a builder made by
  \<open>new InvocationTreeBuilder()\<close> has the empty list there.
\<close>

definition parseAll ::
  "host_io \<Rightarrow> ParsedModule list \<Rightarrow> string \<Rightarrow> Script list
     \<Rightarrow> (thrown + ParsedModule list) option" where
  "parseAll io parsedModules initialCode otherScripts =
     (case parseScript (parse io) [] initialCode of
        Inl e \<Rightarrow> Some (Inl e)
      | Inr result \<Rightarrow>
          parseAll_loop io otherScripts (parsedModules @ [result])
            (uniq (map ImportedModule.filePath (importedModules result))))"

definition new_InvocationTreeBuilder :: "ParsedModule list" where
  "new_InvocationTreeBuilder = []"

subsection \<open>Reachability: \<open>findAllCalledFunctions\<close>\<close>

text \<open>
  The two output lists are the state of the traversal next to the worklist
  \<open>toProcess\<close>.  \<open>findCurrentFn\<close> is the lookup of \<open>currentFn\<close> for a function whose module
  was found; \<open>processNext\<close> is one pass through the body of the \<open>while\<close> loop (the
  worklist is not empty there).
\<close>

record FunctionCalls =
  resolvedFunctions :: "DefinedFunction list"
  unresolvedFunctions :: "DefinedFunction list"

definition isAlreadyProcessed :: "FunctionCalls \<Rightarrow> DefinedFunction \<Rightarrow> bool" where
  "isAlreadyProcessed calls newFn =
     (find (\<lambda>cf. isEqual newFn cf) (resolvedFunctions calls) \<noteq> None
      \<or> find (\<lambda>cf. isEqual newFn cf) (unresolvedFunctions calls) \<noteq> None)"

definition findCurrentFn ::
  "ParsedModule list \<Rightarrow> ParsedModule \<Rightarrow> DefinedFunction \<Rightarrow> FunctionTreeNode option" where
  "findCurrentFn modules currentModule current =
     (case find (\<lambda>ft. isEqual (fn ft) current) (functionTree currentModule) of
        Some fnFromCurrentFile \<Rightarrow> Some fnFromCurrentFile
      | None \<Rightarrow>
          (let importReference =
                 find (\<lambda>m. alias m = namespace current
                           \<and> (DefinedFunction.name current \<in> set (imports m) \<or> ''*'' \<in> set (imports m)))
                   (importedModules currentModule);
               importModule =
                 (case importReference of
                    None \<Rightarrow> None
                  | Some r \<Rightarrow>
                      find (\<lambda>m. ParsedModule.filePath m = ImportedModule.filePath r) modules)
           in case importModule of
                None \<Rightarrow> None
              | Some im \<Rightarrow>
                  find (\<lambda>ft. DefinedFunction.name (fn ft) = DefinedFunction.name current
                            \<and> namespace (fn ft) = [])
                    (functionTree im)))"

definition processNext ::
  "ParsedModule list \<Rightarrow> DefinedFunction list \<times> FunctionCalls
     \<Rightarrow> DefinedFunction list \<times> FunctionCalls" where
  "processNext modules st =
     (case st of (toProcess, calls) \<Rightarrow>
        (let current = hd toProcess; rest = tl toProcess in
         case find (\<lambda>m. ParsedModule.filePath m = DefinedFunction.filePath current) modules of
           None \<Rightarrow> (rest, calls)
         | Some currentModule \<Rightarrow>
             (case findCurrentFn modules currentModule current of
                Some currentFn \<Rightarrow>
                  (let dependencies = calledFunctions currentFn;
                       newDependencies = filter (\<lambda>d. \<not> isAlreadyProcessed calls d) dependencies
                   in (rest @ newDependencies,
                       calls\<lparr>resolvedFunctions := resolvedFunctions calls @ [current]\<rparr>))
              | None \<Rightarrow>
                  (rest, calls\<lparr>unresolvedFunctions := unresolvedFunctions calls @ [current]\<rparr>))))"

text \<open>
  The loop.  Its recursion is justified below by an order on the loop states, for
  which the following notions are used: the functions that occur as a callee somewhere
  in the modules, the functions already put into one of the output lists, the
  declaration a function resolves to, and the number of pushes that the entries of the
  worklist can still cause.
\<close>

definition allCalled :: "ParsedModule list \<Rightarrow> DefinedFunction set" where
  "allCalled modules = (\<Union>m \<in> set modules. \<Union>ft \<in> set (functionTree m). set (calledFunctions ft))"

definition processed :: "FunctionCalls \<Rightarrow> DefinedFunction set" where
  "processed calls = set (resolvedFunctions calls) \<union> set (unresolvedFunctions calls)"

definition currentFnOf :: "ParsedModule list \<Rightarrow> DefinedFunction \<Rightarrow> FunctionTreeNode option" where
  "currentFnOf modules current =
     (case find (\<lambda>m. ParsedModule.filePath m = DefinedFunction.filePath current) modules of
        None \<Rightarrow> None
      | Some currentModule \<Rightarrow> findCurrentFn modules currentModule current)"

definition unprocessed :: "ParsedModule list \<Rightarrow> DefinedFunction list \<times> FunctionCalls \<Rightarrow> nat" where
  "unprocessed modules st = card ((set (fst st) \<union> allCalled modules) - processed (snd st))"

definition weight :: "ParsedModule list \<Rightarrow> FunctionCalls \<Rightarrow> DefinedFunction \<Rightarrow> nat" where
  "weight modules calls x =
     (if x \<in> processed calls
      then (case currentFnOf modules x of
              None \<Rightarrow> 1
            | Some cf \<Rightarrow> 1 + length (filter (\<lambda>d. d \<notin> processed calls) (calledFunctions cf)))
      else 1)"

definition pushes :: "ParsedModule list \<Rightarrow> DefinedFunction list \<times> FunctionCalls \<Rightarrow> nat" where
  "pushes modules st = sum_list (map (weight modules (snd st)) (fst st))"

definition loop_order ::
  "ParsedModule list \<Rightarrow> ((DefinedFunction list \<times> FunctionCalls) \<times> (DefinedFunction list \<times> FunctionCalls)) set" where
  "loop_order modules = inv_image (less_than <*lex*> less_than) (\<lambda>st. (unprocessed modules st, pushes modules st))"

function findAllCalledFunctions_loop ::
  "ParsedModule list \<Rightarrow> DefinedFunction list \<Rightarrow> FunctionCalls \<Rightarrow> FunctionCalls" where
  "findAllCalledFunctions_loop modules toProcess calls =
     (if toProcess = [] then calls
      else (case processNext modules (toProcess, calls) of
              (toProcess', calls') \<Rightarrow> findAllCalledFunctions_loop modules toProcess' calls'))"
  by pat_completeness auto

definition findAllCalledFunctions :: "ParsedModule list \<Rightarrow> DefinedFunction \<Rightarrow> FunctionCalls" where
  "findAllCalledFunctions modules entryPoint =
     findAllCalledFunctions_loop modules [entryPoint]
       \<lparr>resolvedFunctions = [], unresolvedFunctions = []\<rparr>"

text \<open>The default value of the parameter \<open>entryPoint\<close>.\<close>

definition defaultEntryPoint :: DefinedFunction where
  "defaultEntryPoint = \<lparr>name = ''main'', namespace = [], filePath = []\<rparr>"

subsection \<open>The top-level operation: \<open>calculateRamUsage\<close>\<close>

text \<open>
  The body of the \<open>try\<close> block, and the operation with its \<open>catch\<close>.  The numbers of the
  enum \<open>RamCalculationErrorCode\<close> (declared in \<open>RamCalculationErrorCodes\<close>) are the parameter
  \<open>codeNumber\<close>.  \<open>None\<close> is a call that does not return because the resolver runs forever.
\<close>

definition calculateRamUsage_try ::
  "host_io \<Rightarrow> RamCostConstants \<Rightarrow> 'p RamCosts \<Rightarrow> 'p \<Rightarrow> string \<Rightarrow> Script list
     \<Rightarrow> (thrown + RamCalculation) option" where
  "calculateRamUsage_try io C RamCosts player codeCopy otherScripts =
     (case parseAll io new_InvocationTreeBuilder codeCopy otherScripts of
        None \<Rightarrow> None
      | Some (Inl e) \<Rightarrow> Some (Inl e)
      | Some (Inr parseResults) \<Rightarrow>
          (let allCalledFunctions = findAllCalledFunctions parseResults defaultEntryPoint
           in Some (calculateRamCost C RamCosts player (unresolvedFunctions allCalledFunctions))))"

definition calculateRamUsage ::
  "host_io \<Rightarrow> (RamCalculationErrorCode \<Rightarrow> real) \<Rightarrow> RamCostConstants \<Rightarrow> 'p RamCosts \<Rightarrow> 'p
     \<Rightarrow> string \<Rightarrow> Script list \<Rightarrow> RamCalculation option" where
  "calculateRamUsage io codeNumber C RamCosts player codeCopy otherScripts =
     (case calculateRamUsage_try io C RamCosts player codeCopy otherScripts of
        None \<Rightarrow> None
      | Some (Inr calculation) \<Rightarrow> Some calculation
      | Some (Inl error) \<Rightarrow>
          (let errorCode = (case thrown_code error of Some c \<Rightarrow> c | None \<Rightarrow> SyntaxError)
           in Some \<lparr>cost = JsNumber (codeNumber errorCode), entries = None\<rparr>))"

section \<open>Notions used in the statements\<close>

text \<open>
  The number a value adds to a numeric total (nothing for \<open>undefined\<close>), and the number
  the cost table charges for one function.
\<close>

definition numeric :: "js_value \<Rightarrow> real" where
  "numeric v = (case v of JsNumber c \<Rightarrow> c | _ \<Rightarrow> 0)"

definition charge :: "RamCostConstants \<Rightarrow> 'p RamCosts \<Rightarrow> 'p \<Rightarrow> DefinedFunction \<Rightarrow> real" where
  "charge C RamCosts player f =
     (case entryFor C RamCosts player f of
        Inl e \<Rightarrow> 0
      | Inr entry \<Rightarrow> numeric (RamUsageEntry.cost entry))"

text \<open>The step of \<open>baseSum\<close>, named.\<close>

definition sum_step :: "js_value \<Rightarrow> js_value \<Rightarrow> js_value" where
  "sum_step current result =
     (if current \<noteq> JsUndefined
      then (if result = JsUndefined then current else js_add result current)
      else result)"

text \<open>
  The normalization of an import specifier in \<open>parseAll\<close>, all import specifiers of a
  list of modules, and the values the analyzer throws: a SyntaxError of the front end,
  a TypeError, or its own exception with the code ImportError or URLImportError.
\<close>

definition stripDotSlash :: "string \<Rightarrow> string" where
  "stripDotSlash p = (if startsWith p ''./'' then drop 2 p else p)"

definition importSpecifiers :: "ParsedModule list \<Rightarrow> string list" where
  "importSpecifiers modules =
     concat (map (\<lambda>m. map ImportedModule.filePath (importedModules m)) modules)"

fun thrown_by_analyzer :: "thrown \<Rightarrow> bool" where
  "thrown_by_analyzer (RamCalculationException c message) = (c = ImportError \<or> c = URLImportError)"
| "thrown_by_analyzer JsSyntaxError = True"
| "thrown_by_analyzer JsTypeError = True"

section \<open>Example inputs\<close>

text \<open>
  Scripts in the style of the test suite, with the trees the front end builds for
  them.  The kinds of ESTree nodes that the analyzer does not look at are written with
  their names.
\<close>

abbreviation Program :: "node list \<Rightarrow> node" where
  "Program body \<equiv> OtherNode body"

abbreviation ExportNamedDeclaration :: "node \<Rightarrow> node" where
  "ExportNamedDeclaration declaration \<equiv> OtherNode [declaration]"

abbreviation BlockStatement :: "node list \<Rightarrow> node" where
  "BlockStatement body \<equiv> OtherNode body"

abbreviation ExpressionStatement :: "node \<Rightarrow> node" where
  "ExpressionStatement expression \<equiv> OtherNode [expression]"

abbreviation AwaitExpression :: "node \<Rightarrow> node" where
  "AwaitExpression argument \<equiv> OtherNode [argument]"

abbreviation VariableDeclaration :: "(node \<times> node) list \<Rightarrow> node" where
  "VariableDeclaration declarations \<equiv>
     OtherNode (map (\<lambda>(ident, init). OtherNode [ident, init]) declarations)"

definition dq :: string where
  "dq = [CHR 0x22]"

definition emptyMain :: string where
  "emptyMain = ''export async function main(ns){}''"

definition emptyMainAst :: node where
  "emptyMainAst = Program [ExportNamedDeclaration
     (FunctionDeclaration (Some ''main'') [Identifier ''ns''] (BlockStatement []))]"

definition hackMain :: string where
  "hackMain = ''export async function main(ns){ await ns.hack(); }''"

definition hackMainAst :: node where
  "hackMainAst = Program [ExportNamedDeclaration
     (FunctionDeclaration (Some ''main'') [Identifier ''ns'']
        (BlockStatement [ExpressionStatement (AwaitExpression
           (CallExpression (MemberExpression (Identifier ''ns'') ''hack'') []))]))]"

definition stanekMain :: string where
  "stanekMain = ''export async function main(ns){ const stn = ns.stanek; }''"

definition stanekMainAst :: node where
  "stanekMainAst = Program [ExportNamedDeclaration
     (FunctionDeclaration (Some ''main'') [Identifier ''ns'']
        (BlockStatement [VariableDeclaration
           [(Identifier ''stn'', MemberExpression (Identifier ''ns'') ''stanek'')]]))]"

definition chainMain :: string where
  "chainMain = ''export async function main(ns){ foo.bar.baz(); }''"

definition chainMainAst :: node where
  "chainMainAst = Program [ExportNamedDeclaration
     (FunctionDeclaration (Some ''main'') [Identifier ''ns'']
        (BlockStatement [ExpressionStatement
           (CallExpression
              (MemberExpression (MemberExpression (Identifier ''foo'') ''bar'') ''baz'') [])]))]"

definition brokenMain :: string where
  "brokenMain = ''export async function main(ns){''"

text \<open>Three files whose imports form a cycle: the entry imports a, a imports b, b imports a.\<close>

definition cycleMain :: string where
  "cycleMain = ''import {f} from '' @ dq @ ''./a'' @ dq @ ''; import {g} from '' @ dq @ ''a'' @ dq @
     ''; export async function main(ns){ f(); }''"

definition cycleMainAst :: node where
  "cycleMainAst = Program
     [ImportDeclaration [ImportSpecifier ''f'' ''f''] ''./a'',
      ImportDeclaration [ImportSpecifier ''g'' ''g''] ''a'',
      ExportNamedDeclaration
        (FunctionDeclaration (Some ''main'') [Identifier ''ns'']
           (BlockStatement [ExpressionStatement (CallExpression (Identifier ''f'') [])]))]"

definition cycleA :: string where
  "cycleA = ''import {g} from '' @ dq @ ''b'' @ dq @ ''; export function f(){ g(); }''"

definition cycleAAst :: node where
  "cycleAAst = Program
     [ImportDeclaration [ImportSpecifier ''g'' ''g''] ''b'',
      ExportNamedDeclaration
        (FunctionDeclaration (Some ''f'') []
           (BlockStatement [ExpressionStatement (CallExpression (Identifier ''g'') [])]))]"

definition cycleB :: string where
  "cycleB = ''import {f} from '' @ dq @ ''./a'' @ dq @ ''; export function g(){ f(); }''"

definition cycleBAst :: node where
  "cycleBAst = Program
     [ImportDeclaration [ImportSpecifier ''f'' ''f''] ''./a'',
      ExportNamedDeclaration
        (FunctionDeclaration (Some ''g'') []
           (BlockStatement [ExpressionStatement (CallExpression (Identifier ''f'') [])]))]"

definition cycleScripts :: "Script list" where
  "cycleScripts = [\<lparr>filename = ''a.js'', code = cycleA\<rparr>, \<lparr>filename = ''b.js'', code = cycleB\<rparr>]"

definition cycleModules :: "ParsedModule list" where
  "cycleModules =
     [\<lparr>ParsedModule.filePath = [],
       importedModules = [\<lparr>ImportedModule.filePath = ''./a'', alias = [], imports = [''f'']\<rparr>,
                          \<lparr>ImportedModule.filePath = ''a'', alias = [], imports = [''g'']\<rparr>],
       functionTree = [\<lparr>fn = \<lparr>name = ''main'', namespace = [], filePath = []\<rparr>,
                        calledFunctions = [\<lparr>name = ''f'', namespace = [], filePath = []\<rparr>]\<rparr>]\<rparr>,
      \<lparr>ParsedModule.filePath = ''a'',
       importedModules = [\<lparr>ImportedModule.filePath = ''b'', alias = [], imports = [''g'']\<rparr>],
       functionTree = [\<lparr>fn = \<lparr>name = ''f'', namespace = [], filePath = ''a''\<rparr>,
                        calledFunctions = [\<lparr>name = ''g'', namespace = [], filePath = ''a''\<rparr>]\<rparr>]\<rparr>,
      \<lparr>ParsedModule.filePath = ''b'',
       importedModules = [\<lparr>ImportedModule.filePath = ''./a'', alias = [], imports = [''f'']\<rparr>],
       functionTree = [\<lparr>fn = \<lparr>name = ''g'', namespace = [], filePath = ''b''\<rparr>,
                        calledFunctions = [\<lparr>name = ''f'', namespace = [], filePath = ''b''\<rparr>]\<rparr>]\<rparr>]"

text \<open>
  The same API called twice through one receiver name; called through two receiver
  names; and called in two files, the entry and a library it imports.
\<close>

definition hackTwiceMain :: string where
  "hackTwiceMain = ''export async function main(ns){ await ns.hack(); await ns.hack(); }''"

definition hackTwiceMainAst :: node where
  "hackTwiceMainAst = Program [ExportNamedDeclaration
     (FunctionDeclaration (Some ''main'') [Identifier ''ns'']
        (BlockStatement
           [ExpressionStatement (AwaitExpression
              (CallExpression (MemberExpression (Identifier ''ns'') ''hack'') [])),
            ExpressionStatement (AwaitExpression
              (CallExpression (MemberExpression (Identifier ''ns'') ''hack'') []))]))]"

definition twoReceiversMain :: string where
  "twoReceiversMain =
     ''export async function main(ns){ const n = ns; await ns.hack(); await n.hack(); }''"

definition twoReceiversMainAst :: node where
  "twoReceiversMainAst = Program [ExportNamedDeclaration
     (FunctionDeclaration (Some ''main'') [Identifier ''ns'']
        (BlockStatement
           [VariableDeclaration [(Identifier ''n'', Identifier ''ns'')],
            ExpressionStatement (AwaitExpression
              (CallExpression (MemberExpression (Identifier ''ns'') ''hack'') [])),
            ExpressionStatement (AwaitExpression
              (CallExpression (MemberExpression (Identifier ''n'') ''hack'') []))]))]"

definition twoFilesMain :: string where
  "twoFilesMain = ''import {doHack} from '' @ dq @ ''lib'' @ dq @
     ''; export async function main(ns){ await ns.hack(); await doHack(ns); }''"

definition twoFilesMainAst :: node where
  "twoFilesMainAst = Program
     [ImportDeclaration [ImportSpecifier ''doHack'' ''doHack''] ''lib'',
      ExportNamedDeclaration
        (FunctionDeclaration (Some ''main'') [Identifier ''ns'']
           (BlockStatement
              [ExpressionStatement (AwaitExpression
                 (CallExpression (MemberExpression (Identifier ''ns'') ''hack'') [])),
               ExpressionStatement (AwaitExpression
                 (CallExpression (Identifier ''doHack'') [Identifier ''ns'']))]))]"

definition libHack :: string where
  "libHack = ''export async function doHack(ns){ await ns.hack(); }''"

definition libHackAst :: node where
  "libHackAst = Program [ExportNamedDeclaration
     (FunctionDeclaration (Some ''doHack'') [Identifier ''ns'']
        (BlockStatement
           [ExpressionStatement (AwaitExpression
              (CallExpression (MemberExpression (Identifier ''ns'') ''hack'') []))]))]"


definition exampleParse :: "string \<Rightarrow> node option" where
  "exampleParse src =
     (if src = emptyMain then Some emptyMainAst
      else if src = hackMain then Some hackMainAst
      else if src = stanekMain then Some stanekMainAst
      else if src = chainMain then Some chainMainAst
      else if src = cycleMain then Some cycleMainAst
      else if src = cycleA then Some cycleAAst
      else if src = cycleB then Some cycleBAst
      else if src = hackTwiceMain then Some hackTwiceMainAst
      else if src = twoReceiversMain then Some twoReceiversMainAst
      else if src = twoFilesMain then Some twoFilesMainAst
      else if src = libHack then Some libHackAst
      else None)"

definition exampleHost :: host_io where
  "exampleHost =
     \<lparr>parse = exampleParse,
      areImportsEquals = (\<lambda>f1 f2. f1 = f2 \<or> f1 = f2 @ ''.js'' \<or> f1 @ ''.js'' = f2),
      dynamicImport = (\<lambda>url. Inl ''offline'')\<rparr>"

definition exampleConstants :: RamCostConstants where
  "exampleConstants =
     \<lparr>ScriptBaseRamCost = 1.6, ScriptHacknetNodesRamCost = 4,
      ScriptDomRamCost = 25, ScriptCorporationRamCost = 1022.4\<rparr>"

definition exampleCosts :: "unit RamCosts" where
  "exampleCosts =
     [''hack'' \<mapsto> Leaf (ConstantCost 0.1),
      ''grow'' \<mapsto> Leaf (ConstantCost 0.15),
      ''stanek'' \<mapsto> SubApi [''get'' \<mapsto> ConstantCost 5, ''width'' \<mapsto> ConstantCost 0.4]]"

definition exampleCodes :: "RamCalculationErrorCode \<Rightarrow> real" where
  "exampleCodes c = (case c of SyntaxError \<Rightarrow> -1 | ImportError \<Rightarrow> -2 | URLImportError \<Rightarrow> -3)"

definition hackFn :: DefinedFunction where
  "hackFn = \<lparr>name = ''hack'', namespace = ''ns'', filePath = []\<rparr>"





section \<open>Properties\<close>

subsection \<open>The traversal terminates\<close>

lemma wf_loop_order: "wf (loop_order modules)"
  unfolding loop_order_def by (intro wf_inv_image wf_lex_prod wf_less_than)

lemma isAlreadyProcessed_iff: "isAlreadyProcessed calls d \<longleftrightarrow> d \<in> processed calls"
  by (auto simp: isAlreadyProcessed_def processed_def isEqual_def find_None_iff)

lemma find_Some_set: "find P xs = Some x \<Longrightarrow> x \<in> set xs"
  by (auto simp: find_Some_iff)

lemma findCurrentFn_called:
  assumes "findCurrentFn modules m current = Some cf" and "m \<in> set modules"
  shows "set (calledFunctions cf) \<subseteq> allCalled modules"
proof -
  have "\<exists>m' \<in> set modules. cf \<in> set (functionTree m')"
    using assms
    by (auto simp: findCurrentFn_def Let_def split: option.splits dest!: find_Some_set)
  then show ?thesis by (auto simp: allCalled_def)
qed

lemma currentFnOf_called:
  "currentFnOf modules current = Some cf \<Longrightarrow> set (calledFunctions cf) \<subseteq> allCalled modules"
  by (auto simp: currentFnOf_def split: option.splits dest: find_Some_set findCurrentFn_called)

lemma processNext_cases:
  "processNext modules (x # rest, calls) =
     (case find (\<lambda>m. ParsedModule.filePath m = DefinedFunction.filePath x) modules of
        None \<Rightarrow> (rest, calls)
      | Some m \<Rightarrow>
         (case currentFnOf modules x of
            Some cf \<Rightarrow> (rest @ filter (\<lambda>d. d \<notin> processed calls) (calledFunctions cf),
                        calls\<lparr>resolvedFunctions := resolvedFunctions calls @ [x]\<rparr>)
          | None \<Rightarrow> (rest, calls\<lparr>unresolvedFunctions := unresolvedFunctions calls @ [x]\<rparr>)))"
  by (simp add: processNext_def currentFnOf_def Let_def isAlreadyProcessed_iff split: option.splits)


lemma processed_resolved:
  "processed (calls\<lparr>resolvedFunctions := resolvedFunctions calls @ [x]\<rparr>) = insert x (processed calls)"
  by (auto simp: processed_def)

lemma processed_unresolved:
  "processed (calls\<lparr>unresolvedFunctions := unresolvedFunctions calls @ [x]\<rparr>) = insert x (processed calls)"
  by (auto simp: processed_def)

lemma weight_processed_cong:
  "processed c1 = processed c2 \<Longrightarrow> weight modules c1 = weight modules c2"
  by (rule ext) (simp add: weight_def split: option.splits)

lemma weight_pos: "0 < weight modules calls x"
  by (simp add: weight_def split: option.splits)

lemma weight_unprocessed: "x \<notin> processed calls \<Longrightarrow> weight modules calls x = 1"
  by (simp add: weight_def)

lemma sum_weight_unprocessed:
  "sum_list (map (weight modules calls) (filter (\<lambda>d. d \<notin> processed calls) ds))
     = length (filter (\<lambda>d. d \<notin> processed calls) ds)"
  by (induction ds) (simp_all add: weight_unprocessed)

lemma finite_allCalled: "finite (allCalled modules)"
  by (simp add: allCalled_def)

lemma lex_first: "(a'::nat) < a \<Longrightarrow> ((a', b'::nat), (a, b)) \<in> less_than <*lex*> less_than"
  by simp

lemma lex_second:
  "(a'::nat) \<le> a \<Longrightarrow> (b'::nat) < b \<Longrightarrow> ((a', b'), (a, b)) \<in> less_than <*lex*> less_than"
  by auto

lemma processNext_decreases:
  assumes "toProcess \<noteq> []"
  shows "(processNext modules (toProcess, calls), (toProcess, calls)) \<in> loop_order modules"
proof -
  from assms obtain x rest where tp: "toProcess = x # rest" by (cases toProcess) auto
  let ?U = "(set toProcess \<union> allCalled modules) - processed calls"
  have finU: "finite ?U" by (simp add: finite_allCalled)
  have pushes0: "pushes modules (toProcess, calls)
      = weight modules calls x + sum_list (map (weight modules calls) rest)"
    by (simp add: pushes_def tp)
  show ?thesis
  proof (cases "find (\<lambda>m. ParsedModule.filePath m = DefinedFunction.filePath x) modules")
    case None
    then have step: "processNext modules (toProcess, calls) = (rest, calls)"
      by (simp add: tp processNext_cases)
    have "(set rest \<union> allCalled modules) - processed calls \<subseteq> ?U" by (auto simp: tp)
    then have "unprocessed modules (rest, calls) \<le> unprocessed modules (toProcess, calls)"
      using finU by (simp add: unprocessed_def card_mono)
    moreover have "pushes modules (rest, calls) < pushes modules (toProcess, calls)"
      using weight_pos [of modules calls x] by (simp add: pushes0) (simp add: pushes_def)
    ultimately show ?thesis
      by (simp only: step loop_order_def in_inv_image lex_second)
  next
    case (Some m)
    show ?thesis
    proof (cases "currentFnOf modules x")
      case None
      let ?calls' = "calls\<lparr>unresolvedFunctions := unresolvedFunctions calls @ [x]\<rparr>"
      from Some None have step: "processNext modules (toProcess, calls) = (rest, ?calls')"
        by (simp add: tp processNext_cases)
      show ?thesis
      proof (cases "x \<in> processed calls")
        case True
        then have same: "processed ?calls' = processed calls"
          by (auto simp: processed_unresolved)
        have "(set rest \<union> allCalled modules) - processed ?calls' \<subseteq> ?U"
          by (auto simp: tp same)
        then have "unprocessed modules (rest, ?calls') \<le> unprocessed modules (toProcess, calls)"
          using finU by (simp add: unprocessed_def card_mono)
        moreover have "pushes modules (rest, ?calls') < pushes modules (toProcess, calls)"
          using weight_pos [of modules calls x]
          by (simp add: pushes0) (simp add: pushes_def weight_processed_cong [OF same])
        ultimately show ?thesis
          by (simp only: step loop_order_def in_inv_image lex_second)
      next
        case False
        have "(set rest \<union> allCalled modules) - processed ?calls' \<subset> ?U"
          using False by (auto simp: tp processed_unresolved)
        then have "unprocessed modules (rest, ?calls') < unprocessed modules (toProcess, calls)"
          using finU by (simp add: unprocessed_def psubset_card_mono)
        then show ?thesis
          by (simp only: step loop_order_def in_inv_image lex_first)
      qed
    next
      case (Some cf)
      note cf = this
      let ?calls' = "calls\<lparr>resolvedFunctions := resolvedFunctions calls @ [x]\<rparr>"
      let ?new = "filter (\<lambda>d. d \<notin> processed calls) (calledFunctions cf)"
      from \<open>find _ modules = Some m\<close> cf
      have step: "processNext modules (toProcess, calls) = (rest @ ?new, ?calls')"
        by (simp add: tp processNext_cases)
      have new_called: "set ?new \<subseteq> allCalled modules"
        using currentFnOf_called [OF cf] by auto
      show ?thesis
      proof (cases "x \<in> processed calls")
        case True
        then have same: "processed ?calls' = processed calls"
          by (auto simp: processed_resolved)
        have "(set (rest @ ?new) \<union> allCalled modules) - processed ?calls' \<subseteq> ?U"
          using new_called by (auto simp: tp same)
        then have "unprocessed modules (rest @ ?new, ?calls') \<le> unprocessed modules (toProcess, calls)"
          using finU by (simp add: unprocessed_def card_mono)
        moreover have "weight modules calls x = 1 + length ?new"
          using True cf by (simp add: weight_def)
        then have "pushes modules (rest @ ?new, ?calls') < pushes modules (toProcess, calls)"
          by (simp add: pushes0)
             (simp add: pushes_def weight_processed_cong [OF same] sum_weight_unprocessed)
        ultimately show ?thesis
          by (simp only: step loop_order_def in_inv_image lex_second)
      next
        case False
        have "(set (rest @ ?new) \<union> allCalled modules) - processed ?calls' \<subset> ?U"
          using False new_called by (auto simp: tp processed_resolved)
        then have "unprocessed modules (rest @ ?new, ?calls') < unprocessed modules (toProcess, calls)"
          using finU by (simp add: unprocessed_def psubset_card_mono)
        then show ?thesis
          by (simp only: step loop_order_def in_inv_image lex_first)
      qed
    qed
  qed
qed

termination findAllCalledFunctions_loop
proof (relation "inv_image (same_fst (\<lambda>modules. True) loop_order) (\<lambda>(modules, toProcess, calls). (modules, (toProcess, calls)))")
  show "wf (inv_image (same_fst (\<lambda>modules. True) loop_order) (\<lambda>(modules, toProcess, calls). (modules, (toProcess, calls))))"
    by (intro wf_inv_image wf_same_fst wf_loop_order)
next
  fix modules toProcess calls x1 x2
  assume "toProcess \<noteq> []" and "(x1, x2) = processNext modules (toProcess, calls)"
  then show "((modules, x1, x2), modules, toProcess, calls) \<in> inv_image (same_fst (\<lambda>modules. True) loop_order) (\<lambda>(modules, toProcess, calls). (modules, (toProcess, calls)))"
    using processNext_decreases [of toProcess modules calls] by (simp add: same_fst_def)
qed


subsection \<open>Import declarations\<close>

text \<open>
  Claim C8.  The three import forms give the import entries the specification lists.
  For \<open>import X from "lib"\<close> the front end gives one default specifier with local name
  \<open>X\<close>, for \<open>import {a, b} from "lib"\<close> two import specifiers whose imported and local
  names are \<open>a\<close> and \<open>b\<close>, for \<open>import * as X from "lib"\<close> one namespace specifier with
  local name \<open>X\<close>; the source of each declaration is \<open>lib\<close>.  Walking a program that
  consists of the declaration records a namespace import with alias \<open>X\<close> and imports
  \<open>["*"]\<close>, a named import with alias \<open>""\<close> and imports \<open>["a", "b"]\<close>, and again a
  namespace import with alias \<open>X\<close> and imports \<open>["*"]\<close>; the \<open>filePath\<close> of each entry is
  the specifier string \<open>lib\<close>.
\<close>

theorem import_forms:
  "walkTop (OtherNode [ImportDeclaration [ImportDefaultSpecifier X] lib])
     \<lparr>ParsedModule.filePath = path, importedModules = [], functionTree = []\<rparr>
   = Inr \<lparr>ParsedModule.filePath = path,
          importedModules = [\<lparr>ImportedModule.filePath = lib, alias = X, imports = [''*'']\<rparr>],
          functionTree = []\<rparr>
   \<and> walkTop (OtherNode [ImportDeclaration [ImportSpecifier a a, ImportSpecifier b b] lib])
     \<lparr>ParsedModule.filePath = path, importedModules = [], functionTree = []\<rparr>
   = Inr \<lparr>ParsedModule.filePath = path,
          importedModules = [\<lparr>ImportedModule.filePath = lib, alias = [], imports = [a, b]\<rparr>],
          functionTree = []\<rparr>
   \<and> walkTop (OtherNode [ImportDeclaration [ImportNamespaceSpecifier X] lib])
     \<lparr>ParsedModule.filePath = path, importedModules = [], functionTree = []\<rparr>
   = Inr \<lparr>ParsedModule.filePath = path,
          importedModules = [\<lparr>ImportedModule.filePath = lib, alias = X, imports = [''*'']\<rparr>],
          functionTree = []\<rparr>"
  by (simp add: parseImport_def)

subsection \<open>The cost reducer\<close>

lemma uniq_fold_set:
  "set (fold (\<lambda>v result. if list_ex (\<lambda>seen. isEqual seen v) result then result else result @ [v]) xs acc)
     = set acc \<union> set xs"
  by (induction xs arbitrary: acc) (auto simp: list_ex_iff isEqual_def)

lemma uniq_fold_distinct:
  "distinct acc \<Longrightarrow>
   distinct (fold (\<lambda>v result. if list_ex (\<lambda>seen. isEqual seen v) result then result else result @ [v]) xs acc)"
  by (induction xs arbitrary: acc) (auto simp: list_ex_iff isEqual_def)

lemma set_uniqWith: "set (uniqWith xs isEqual) = set xs"
  by (simp add: uniqWith_def uniq_fold_set)

lemma distinct_uniqWith: "distinct (uniqWith xs isEqual)"
  by (simp add: uniqWith_def uniq_fold_distinct)


lemma map_throwing_map:
  "map_throwing g xs = Inr ys \<Longrightarrow> map g xs = map Inr ys"
  by (induction xs arbitrary: ys) (auto split: sum.splits)

lemma baseSum_fold: "baseSum array = fold sum_step array JsUndefined"
  by (simp add: baseSum_def sum_step_def [abs_def])

lemma sum_step_simps:
  "sum_step JsUndefined r = r"
  "sum_step (JsNumber b) (JsNumber a) = JsNumber (a + b)"
  "sum_step JsObject (JsNumber a) = JsString"
  "sum_step JsString (JsNumber a) = JsString"
  "sum_step JsNaN (JsNumber a) = JsNaN"
  by (simp_all add: sum_step_def)

lemma sum_step_stuck:
  "acc = JsString \<or> acc = JsNaN \<or> acc = JsObject \<Longrightarrow>
   sum_step v acc = JsString \<or> sum_step v acc = JsNaN \<or> sum_step v acc = JsObject"
  by (cases v) (auto simp: sum_step_def)

lemma fold_sum_not_number:
  "acc = JsString \<or> acc = JsNaN \<or> acc = JsObject \<Longrightarrow> fold sum_step vs acc \<noteq> JsNumber t"
proof (induction vs arbitrary: acc)
  case Nil
  then show ?case by auto
next
  case (Cons v vs)
  have "sum_step v acc = JsString \<or> sum_step v acc = JsNaN \<or> sum_step v acc = JsObject"
    using Cons.prems by (rule sum_step_stuck)
  then show ?case using Cons.IH by simp
qed

lemma fold_sum_number:
  "fold sum_step vs (JsNumber a) = JsNumber t \<Longrightarrow> t = a + sum_list (map numeric vs)"
proof (induction vs arbitrary: a)
  case Nil
  then show ?case by simp
next
  case (Cons v vs)
  show ?case
  proof (cases v)
    case JsUndefined
    with Cons show ?thesis by (simp add: sum_step_simps numeric_def)
  next
    case (JsNumber b)
    with Cons.prems have "fold sum_step vs (JsNumber (a + b)) = JsNumber t"
      by (simp add: sum_step_simps)
    from Cons.IH [OF this] JsNumber show ?thesis by (simp add: numeric_def)
  next
    case JsObject
    with Cons.prems have "fold sum_step vs JsString = JsNumber t" by (simp add: sum_step_simps)
    then show ?thesis using fold_sum_not_number [of JsString vs t] by simp
  next
    case JsString
    with Cons.prems have "fold sum_step vs JsString = JsNumber t" by (simp add: sum_step_simps)
    then show ?thesis using fold_sum_not_number [of JsString vs t] by simp
  next
    case JsNaN
    with Cons.prems have "fold sum_step vs JsNaN = JsNumber t" by (simp add: sum_step_simps)
    then show ?thesis using fold_sum_not_number [of JsNaN vs t] by simp
  qed
qed

lemma lodash_sum_base:
  "lodash_sum (JsNumber a # vs) = JsNumber t \<Longrightarrow> t = a + sum_list (map numeric vs)"
  by (simp add: lodash_sum_def baseSum_fold) (simp add: sum_step_def fold_sum_number)

lemma calculateRamCost_Inr:
  assumes "calculateRamCost C T p fs = Inr r"
  shows "\<exists>es. map_throwing (entryFor C T p) (uniqWith fs isEqual) = Inr es
           \<and> entries r = Some es
           \<and> RamCalculation.cost r = lodash_sum (JsNumber (ScriptBaseRamCost C) # map RamUsageEntry.cost es)"
  using assms by (auto simp: calculateRamCost_def Let_def split: sum.splits)

lemma charge_entries:
  assumes "map_throwing (entryFor C T p) us = Inr es"
  shows "map numeric (map RamUsageEntry.cost es) = map (charge C T p) us"
  using assms
proof (induction us arbitrary: es)
  case Nil
  then show ?case by simp
next
  case (Cons u us)
  then show ?case by (auto split: sum.splits simp: charge_def)
qed


lemma total_formula:
  assumes "calculateRamCost C T p functions = Inr r"
    and "RamCalculation.cost r = JsNumber tot"
  shows "tot = ScriptBaseRamCost C + (\<Sum>f \<in> set functions. charge C T p f)"
proof -
  from calculateRamCost_Inr [OF assms(1)] obtain es where
    es: "map_throwing (entryFor C T p) (uniqWith functions isEqual) = Inr es"
    and cost_eq: "RamCalculation.cost r
        = lodash_sum (JsNumber (ScriptBaseRamCost C) # map RamUsageEntry.cost es)"
    by blast
  from cost_eq assms(2)
  have "tot = ScriptBaseRamCost C + sum_list (map numeric (map RamUsageEntry.cost es))"
    using lodash_sum_base [of "ScriptBaseRamCost C" "map RamUsageEntry.cost es" tot] by simp
  also have "map numeric (map RamUsageEntry.cost es)
      = map (charge C T p) (uniqWith functions isEqual)"
    by (rule charge_entries [OF es])
  also have "sum_list (map (charge C T p) (uniqWith functions isEqual))
      = (\<Sum>f \<in> set (uniqWith functions isEqual). charge C T p f)"
    by (rule sum_list_distinct_conv_sum_set [OF distinct_uniqWith])
  finally show ?thesis by (simp add: set_uniqWith)
qed










text \<open>
  Structural equality compares the namespace and the file as well: the same API called
  through two receiver names, or in two files, is charged once for each.
\<close>

lemma charged_per_namespace_and_file:
  "calculateRamCost exampleConstants exampleCosts ()
     [hackFn, hackFn\<lparr>namespace := ''X''\<rparr>, hackFn\<lparr>DefinedFunction.filePath := ''lib''\<rparr>]
     = Inr \<lparr>cost = JsNumber 1.9,
            entries = Some [\<lparr>type = Ns, name = ''hack'', cost = JsNumber 0.1\<rparr>,
                            \<lparr>type = Ns, name = ''hack'', cost = JsNumber 0.1\<rparr>,
                            \<lparr>type = Ns, name = ''hack'', cost = JsNumber 0.1\<rparr>]\<rparr>"
  by (simp add: calculateRamCost_def uniqWith_def isEqual_def hackFn_def entryFor_def
        specialKeyChecks_def exampleCosts_def exampleConstants_def lodash_sum_def baseSum_def)

lemma base_cost_floor:
  assumes "calculateRamCost C T p functions = Inr r"
    and "RamCalculation.cost r = JsNumber tot"
    and "\<And>f. 0 \<le> charge C T p f"
  shows "ScriptBaseRamCost C \<le> tot"
proof -
  have "0 \<le> (\<Sum>f \<in> set functions. charge C T p f)"
    by (rule sum_nonneg) (rule assms(3))
  then show ?thesis using total_formula [OF assms(1,2)] by simp
qed

lemma entryFor_type:
  "entryFor C T p f = Inr e \<Longrightarrow> type e \<noteq> Misc"
  by (auto simp: entryFor_def specialKeyChecks_def Let_def
           split: option.splits if_splits table_value.splits)

lemma map_throwing_set:
  "map_throwing g xs = Inr ys \<Longrightarrow> y \<in> set ys \<Longrightarrow> \<exists>x \<in> set xs. g x = Inr y"
  by (induction xs arbitrary: ys) (auto split: sum.splits)

lemma entries_never_hold_base:
  assumes "calculateRamCost C T p functions = Inr r" and "entries r = Some es"
  shows "\<lparr>type = Misc, name = ''baseCost'', cost = JsNumber (ScriptBaseRamCost C)\<rparr> \<notin> set es"
proof
  assume mem: "\<lparr>type = Misc, name = ''baseCost'', cost = JsNumber (ScriptBaseRamCost C)\<rparr> \<in> set es"
  from calculateRamCost_Inr [OF assms(1)] assms(2) have
    "map_throwing (entryFor C T p) (uniqWith functions isEqual) = Inr es" by auto
  from map_throwing_set [OF this mem] obtain f where
    "entryFor C T p f = Inr \<lparr>type = Misc, name = ''baseCost'', cost = JsNumber (ScriptBaseRamCost C)\<rparr>"
    by blast
  from entryFor_type [OF this] show False by simp
qed

lemma missing_sub_api:
  assumes "find (\<lambda>sk. namespace f = RamUsageEntry.name sk) (specialKeyChecks C) = None"
    and "1 < length (split_dot (namespace f))"
    and "T (last (split_dot (namespace f))) = None"
  shows "calculateRamCost C T p [f] = Inl JsTypeError"
  using assms by (simp add: calculateRamCost_def uniqWith_def entryFor_def)

lemma absent_name_in_sub_api:
  assumes "find (\<lambda>sk. namespace f = RamUsageEntry.name sk) (specialKeyChecks C) = None"
    and "1 < length (split_dot (namespace f))"
    and "T (last (split_dot (namespace f))) = Some (SubApi lib)"
    and "lib (DefinedFunction.name f) = None"
  shows "entryFor C T p f = Inr \<lparr>type = Ns, name = DefinedFunction.name f, cost = JsNumber 0\<rparr>"
  using assms by (simp add: entryFor_def)

lemma absent_bare_name:
  assumes "find (\<lambda>sk. namespace f = RamUsageEntry.name sk) (specialKeyChecks C) = None"
    and "length (split_dot (namespace f)) = 1"
    and "T (DefinedFunction.name f) = None"
  shows "entryFor C T p f = Inr \<lparr>type = Ns, name = DefinedFunction.name f, cost = JsUndefined\<rparr>
         \<and> charge C T p f = 0"
  using assms by (simp add: entryFor_def charge_def numeric_def)

text \<open>
  Claim C5.  A call whose dotted namespace ends in a segment that is no key of the cost
  table does not contribute 0: the read \<open>RamCosts[libPart][fn.name]\<close> throws a TypeError,
  and \<open>calculateRamUsage\<close> reports the SyntaxError code for the whole script.
\<close>

theorem missing_sub_api_throws:
  "calculateRamCost exampleConstants exampleCosts ()
     [\<lparr>name = ''baz'', namespace = ''foo.bar'', filePath = []\<rparr>] = Inl JsTypeError
   \<and> calculateRamUsage exampleHost exampleCodes exampleConstants exampleCosts () chainMain []
     = Some \<lparr>cost = JsNumber (exampleCodes SyntaxError), entries = None\<rparr>"
  by (simp add: calculateRamUsage_def calculateRamUsage_try_def parseAll_def parseScript_def
        exampleHost_def exampleParse_def chainMain_def emptyMain_def hackMain_def stanekMain_def
        chainMainAst_def parseFunctionOrClass_def calleeNames_def
        recordFunctionCall_def new_InvocationTreeBuilder_def uniq_def uniqWith_def
        parseAll_loop.simps findAllCalledFunctions_def defaultEntryPoint_def processNext_def
        findCurrentFn_def isEqual_def isAlreadyProcessed_def calculateRamCost_def
        entryFor_def specialKeyChecks_def exampleCosts_def)

text \<open>
  Claim C4.  The entries that are returned are the entries of the functions alone; the
  base cost entry is part of the sum and not of the returned list.  For the script with
  an empty \<open>main\<close> the cost is the base cost and the list of entries is empty.
\<close>

theorem entries_without_base:
  "calculateRamUsage exampleHost exampleCodes exampleConstants exampleCosts () emptyMain []
     = Some \<lparr>cost = JsNumber (ScriptBaseRamCost exampleConstants), entries = Some []\<rparr>"
  by (simp add: calculateRamUsage_def calculateRamUsage_try_def parseAll_def parseScript_def
        exampleHost_def exampleParse_def emptyMain_def
        emptyMainAst_def parseFunctionOrClass_def
        new_InvocationTreeBuilder_def uniq_def uniqWith_def
        parseAll_loop.simps findAllCalledFunctions_def defaultEntryPoint_def processNext_def
        findCurrentFn_def isEqual_def calculateRamCost_def
        lodash_sum_def baseSum_def)

text \<open>
  Claim C1.  A reference to a sub-API object of the cost table (\<open>ns.stanek\<close> as a value)
  is charged with the nested object itself; the sum is then a string and no number at
  or above the base cost.
\<close>

theorem cost_not_a_number:
  "calculateRamUsage exampleHost exampleCodes exampleConstants exampleCosts () stanekMain []
     = Some \<lparr>cost = JsString,
             entries = Some [\<lparr>type = Ns, name = ''stanek'', cost = JsObject\<rparr>]\<rparr>"
  by (simp add: calculateRamUsage_def calculateRamUsage_try_def parseAll_def parseScript_def
        exampleHost_def exampleParse_def stanekMain_def emptyMain_def hackMain_def
        stanekMainAst_def parseFunctionOrClass_def
        recordFunctionCall_def new_InvocationTreeBuilder_def uniq_def uniqWith_def
        parseAll_loop.simps findAllCalledFunctions_def defaultEntryPoint_def processNext_def
        findCurrentFn_def isEqual_def isAlreadyProcessed_def calculateRamCost_def
        lodash_sum_def baseSum_def entryFor_def specialKeyChecks_def exampleCosts_def)


subsection \<open>Reachability\<close>

lemma processNext_resolved:
  assumes "x \<in> set (resolvedFunctions (snd (processNext modules (y # rest, calls))))"
  shows "x \<in> set (resolvedFunctions calls) \<or> currentFnOf modules x \<noteq> None"
  using assms by (auto simp: processNext_cases split: option.splits)

lemma processNext_unresolved:
  assumes "x \<in> set (unresolvedFunctions (snd (processNext modules (y # rest, calls))))"
  shows "x \<in> set (unresolvedFunctions calls) \<or> currentFnOf modules x = None"
  using assms by (auto simp: processNext_cases split: option.splits)

lemma loop_classifies:
  assumes "\<And>x. x \<in> set (resolvedFunctions calls) \<Longrightarrow> currentFnOf modules x \<noteq> None"
    and "\<And>x. x \<in> set (unresolvedFunctions calls) \<Longrightarrow> currentFnOf modules x = None"
  shows "(\<forall>x \<in> set (resolvedFunctions (findAllCalledFunctions_loop modules toProcess calls)).
            currentFnOf modules x \<noteq> None)
       \<and> (\<forall>x \<in> set (unresolvedFunctions (findAllCalledFunctions_loop modules toProcess calls)).
            currentFnOf modules x = None)"
  using assms
proof (induction modules toProcess calls rule: findAllCalledFunctions_loop.induct)
  case (1 modules toProcess calls)
  show ?case
  proof (cases "toProcess = []")
    case True
    then show ?thesis using "1.prems" by auto
  next
    case False
    then obtain y rest where tp: "toProcess = y # rest" by (cases toProcess) auto
    obtain toProcess' calls' where step: "processNext modules (toProcess, calls) = (toProcess', calls')"
      by (cases "processNext modules (toProcess, calls)")
    have r: "\<And>x. x \<in> set (resolvedFunctions calls') \<Longrightarrow> currentFnOf modules x \<noteq> None"
      using processNext_resolved [of _ modules y rest calls] "1.prems"(1) step tp
      by (metis snd_conv)
    have u: "\<And>x. x \<in> set (unresolvedFunctions calls') \<Longrightarrow> currentFnOf modules x = None"
      using processNext_unresolved [of _ modules y rest calls] "1.prems"(2) step tp
      by (metis snd_conv)
    have "findAllCalledFunctions_loop modules toProcess calls
        = findAllCalledFunctions_loop modules toProcess' calls'"
      using False step by (subst findAllCalledFunctions_loop.simps) simp
    then show ?thesis
      using "1.IH" [OF False step [symmetric] r u] by simp
  qed
qed

text \<open>
  Claim C6.  The two output lists of \<open>findAllCalledFunctions\<close> have no element in
  common, for every list of modules and every entry point: a function is put into
  \<open>resolvedFunctions\<close> exactly when the lookup of its declaration succeeds, and the lookup
  depends on the function and the modules only.
\<close>

theorem disjoint_outputs:
  "set (resolvedFunctions (findAllCalledFunctions modules entryPoint))
     \<inter> set (unresolvedFunctions (findAllCalledFunctions modules entryPoint)) = {}
   \<and> (\<nexists>a b. a \<in> set (resolvedFunctions (findAllCalledFunctions modules entryPoint))
            \<and> b \<in> set (unresolvedFunctions (findAllCalledFunctions modules entryPoint))
            \<and> isEqual a b)"
  using loop_classifies [of "\<lparr>resolvedFunctions = [], unresolvedFunctions = []\<rparr>" modules "[entryPoint]"]
  by (auto simp: findAllCalledFunctions_def isEqual_def)






subsection \<open>The parser and the link resolver\<close>

lemma calleeNames_throws: "calleeNames callee = Inl e \<Longrightarrow> e = JsTypeError"
  by (auto simp: calleeNames_def split: if_splits node.splits option.splits)

lemma walkBlock_throws:
  "walkBlock path n st = Inl e \<Longrightarrow> e = JsTypeError"
  "walkBlockList path ns st = Inl e \<Longrightarrow> e = JsTypeError"
  by (induction path n st and path ns st rule: walkBlock_walkBlockList.induct)
     (auto split: sum.splits option.splits dest: calleeNames_throws)

lemma map_throwing_throws:
  "map_throwing g xs = Inl e \<Longrightarrow> \<exists>x \<in> set xs. g x = Inl e"
  by (induction xs) (auto split: sum.splits)

lemma parseImport_throws: "parseImport specifiers src = Inl e \<Longrightarrow> e = JsTypeError"
  by (auto simp: parseImport_def Let_def split: if_splits sum.splits option.splits
           dest!: map_throwing_throws)

lemma parseFunctionOrClass_throws:
  "parseFunctionOrClass path ident body = Inl e \<Longrightarrow> e = JsTypeError"
  by (auto simp: parseFunctionOrClass_def split: option.splits sum.splits dest: walkBlock_throws)

lemma walkTop_throws:
  "walkTop n st = Inl e \<Longrightarrow> e = JsTypeError"
  "walkTopList ns st = Inl e \<Longrightarrow> e = JsTypeError"
  by (induction n st and ns st rule: walkTop_walkTopList.induct)
     (auto split: sum.splits dest: parseImport_throws parseFunctionOrClass_throws)

lemma walkTop_filePath_aux:
  "(case walkTop n st of Inl e \<Rightarrow> True
    | Inr st' \<Rightarrow> ParsedModule.filePath st' = ParsedModule.filePath st)"
  "(case walkTopList ns st of Inl e \<Rightarrow> True
    | Inr st' \<Rightarrow> ParsedModule.filePath st' = ParsedModule.filePath st)"
  by (induction n st and ns st rule: walkTop_walkTopList.induct)
     (simp_all split: sum.splits)

lemma walkTop_filePath:
  "walkTop n st = Inr st' \<Longrightarrow> ParsedModule.filePath st' = ParsedModule.filePath st"
  using walkTop_filePath_aux(1) [where n = n and st = st] by simp

lemma parseScript_throws:
  "parseScript front path src = Inl e \<Longrightarrow> e = JsSyntaxError \<or> e = JsTypeError"
  by (auto simp: parseScript_def split: option.splits dest: walkTop_throws)

lemma parseScript_filePath:
  "parseScript front path src = Inr m \<Longrightarrow> ParsedModule.filePath m = path"
  by (auto simp: parseScript_def split: option.splits dest: walkTop_filePath)


lemma parseAll_loop_throws:
  assumes run: "parseAll_loop io scripts pm wl = Some (Inl e)"
  shows "thrown_by_analyzer e"
proof -
  have "\<forall>e'. Inl e = (Inl e' :: thrown + ParsedModule list) \<longrightarrow> thrown_by_analyzer e'"
    apply (rule parseAll_loop.raw_induct
           [where P = "\<lambda>io scripts pm wl y. \<forall>e'. y = Inl e' \<longrightarrow> thrown_by_analyzer e'", OF _ run])
    subgoal premises prems for loop io scripts pm wl y
      using prems(2) prems(1)
      by (auto split: if_splits sum.splits option.splits
               simp: Let_def resolveExternalModule_def dest: parseScript_throws)
    done
  then show ?thesis by simp
qed

lemma importSpecifiers_append:
  "importSpecifiers (xs @ ys) = importSpecifiers xs @ importSpecifiers ys"
  by (simp add: importSpecifiers_def)

lemma parseAll_loop_modules:
  assumes run: "parseAll_loop io scripts pm wl = Some (Inr mods)"
    and "distinct (map ParsedModule.filePath pm)"
    and "set wl \<subseteq> set (importSpecifiers pm)"
  shows "distinct (map ParsedModule.filePath mods)
       \<and> (\<exists>suffix. mods = pm @ suffix
            \<and> set (map ParsedModule.filePath suffix) \<subseteq> stripDotSlash ` set (importSpecifiers mods))"
proof -
  have "\<forall>mods'. Inr mods = (Inr mods' :: thrown + ParsedModule list)
          \<longrightarrow> distinct (map ParsedModule.filePath pm)
          \<longrightarrow> set wl \<subseteq> set (importSpecifiers pm)
          \<longrightarrow> distinct (map ParsedModule.filePath mods')
              \<and> (\<exists>suffix. mods' = pm @ suffix
                   \<and> set (map ParsedModule.filePath suffix)
                        \<subseteq> stripDotSlash ` set (importSpecifiers mods'))"
    apply (rule parseAll_loop.raw_induct
           [where P = "\<lambda>io scripts pm wl y. \<forall>mods'. y = Inr mods'
              \<longrightarrow> distinct (map ParsedModule.filePath pm)
              \<longrightarrow> set wl \<subseteq> set (importSpecifiers pm)
              \<longrightarrow> distinct (map ParsedModule.filePath mods')
                  \<and> (\<exists>suffix. mods' = pm @ suffix
                       \<and> set (map ParsedModule.filePath suffix)
                            \<subseteq> stripDotSlash ` set (importSpecifiers mods'))", OF _ run])
    subgoal premises prems for loop io scripts pm wl y
    proof (intro allI impI)
      fix mods'
      assume y: "y = Inr mods'"
        and dpm: "distinct (map ParsedModule.filePath pm)"
        and wsub: "set wl \<subseteq> set (importSpecifiers pm)"
      note IH = prems(1) and step = prems(2)
      show "distinct (map ParsedModule.filePath mods')
          \<and> (\<exists>suffix. mods' = pm @ suffix
               \<and> set (map ParsedModule.filePath suffix)
                    \<subseteq> stripDotSlash ` set (importSpecifiers mods'))"
      proof (cases "wl = []")
        case True
        with step y have "mods' = pm" by simp
        with dpm show ?thesis by simp
      next
        case False
        define np where "np = stripDotSlash (hd wl)"
        have hd_in: "hd wl \<in> set (importSpecifiers pm)"
          using False wsub by (cases wl) auto
        have tl_sub: "set (tl wl) \<subseteq> set (importSpecifiers pm)"
          using False wsub by (cases wl) auto
        show ?thesis
        proof (cases "np \<in> set (map ParsedModule.filePath pm)")
          case True
          with False step have "loop io scripts pm (tl wl) = Some y"
            by (simp add: Let_def np_def stripDotSlash_def)
          from IH [OF this] y dpm tl_sub show ?thesis by blast
        next
          case fresh: False
          from False fresh step y obtain src result where
            parsed: "parseScript (parse io) np src = Inr result"
            and rec: "loop io scripts (pm @ [result])
                        (tl wl @ map ImportedModule.filePath (importedModules result)) = Some y"
            by (auto simp: Let_def np_def stripDotSlash_def
                     split: if_splits sum.splits option.splits)
          have fp: "ParsedModule.filePath result = np"
            by (rule parseScript_filePath [OF parsed])
          have d: "distinct (map ParsedModule.filePath (pm @ [result]))"
            using dpm fresh fp by simp
          have "set (map ImportedModule.filePath (importedModules result))
                  \<subseteq> set (importSpecifiers [result])"
            by (simp add: importSpecifiers_def)
          with tl_sub have w: "set (tl wl @ map ImportedModule.filePath (importedModules result))
                     \<subseteq> set (importSpecifiers (pm @ [result]))"
            by (auto simp: importSpecifiers_append)
          from IH [OF rec] y d w obtain suffix where
            dm: "distinct (map ParsedModule.filePath mods')"
            and eq: "mods' = (pm @ [result]) @ suffix"
            and sub: "set (map ParsedModule.filePath suffix)
                        \<subseteq> stripDotSlash ` set (importSpecifiers mods')"
            by blast
          have "hd wl \<in> set (importSpecifiers mods')"
            using hd_in eq by (simp add: importSpecifiers_append)
          then have "np \<in> stripDotSlash ` set (importSpecifiers mods')"
            by (simp add: np_def)
          with sub fp have "set (map ParsedModule.filePath (result # suffix))
              \<subseteq> stripDotSlash ` set (importSpecifiers mods')"
            by simp
          with dm eq show ?thesis by (intro conjI exI [of _ "result # suffix"]) simp_all
        qed
      qed
    qed
    done
  with assms(2,3) show ?thesis by simp
qed

lemma parseAll_cycle:
  "parseAll exampleHost new_InvocationTreeBuilder cycleMain cycleScripts = Some (Inr cycleModules)"
  by (simp add: parseAll_def parseScript_def exampleHost_def exampleParse_def
        cycleMain_def cycleA_def cycleB_def dq_def emptyMain_def hackMain_def stanekMain_def chainMain_def
        cycleMainAst_def cycleAAst_def cycleBAst_def cycleScripts_def cycleModules_def
        parseImport_def parseFunctionOrClass_def calleeNames_def recordFunctionCall_def
        new_InvocationTreeBuilder_def uniq_def uniqWith_def parseAll_loop.simps startsWith_def
        Let_def)

text \<open>
  Claim C9.  When \<open>parseAll\<close>, called on a new builder, returns a list of modules, the
  \<open>filePath\<close> values of the list are pairwise distinct; the first module is the parsed
  entry point, with \<open>filePath\<close> \<open>""\<close>; and the \<open>filePath\<close> of every other module is an
  import specifier of some module of the list with one leading \<open>"./"\<close> stripped.  Each
  module is appended by one parse, so no normalized path is parsed twice.  The witness
  is a set of files whose imports form a cycle.
\<close>

theorem modules_parsed_once:
  assumes "parseAll io new_InvocationTreeBuilder initialCode otherScripts = Some (Inr modules)"
  shows "distinct (map ParsedModule.filePath modules)
       \<and> (\<exists>entry rest. modules = entry # rest
            \<and> parseScript (parse io) [] initialCode = Inr entry
            \<and> ParsedModule.filePath entry = []
            \<and> set (map ParsedModule.filePath rest)
                 \<subseteq> stripDotSlash ` set (importSpecifiers modules))"
proof -
  from assms obtain entry where
    entry: "parseScript (parse io) [] initialCode = Inr entry"
    and run: "parseAll_loop io otherScripts [entry]
                (uniq (map ImportedModule.filePath (importedModules entry))) = Some (Inr modules)"
    by (auto simp: parseAll_def new_InvocationTreeBuilder_def split: sum.splits)
  have fp: "ParsedModule.filePath entry = []"
    by (rule parseScript_filePath [OF entry])
  have "set (uniq (map ImportedModule.filePath (importedModules entry)))
          \<subseteq> set (importSpecifiers [entry])"
    by (simp add: uniq_def uniqWith_def importSpecifiers_def uniq_fold_set [unfolded isEqual_def])
  from parseAll_loop_modules [OF run _ this] obtain suffix where
    "distinct (map ParsedModule.filePath modules)" "modules = [entry] @ suffix"
    "set (map ParsedModule.filePath suffix) \<subseteq> stripDotSlash ` set (importSpecifiers modules)"
    by auto
  with entry fp show ?thesis by simp
qed

theorem modules_parsed_once_witness:
  "parseAll exampleHost new_InvocationTreeBuilder cycleMain cycleScripts = Some (Inr cycleModules)
   \<and> distinct (map ParsedModule.filePath cycleModules)
   \<and> map ParsedModule.filePath cycleModules = [[], ''a'', ''b'']"
proof -
  from modules_parsed_once [OF parseAll_cycle]
  have "distinct (map ParsedModule.filePath cycleModules)" by (rule conjunct1)
  moreover have "map ParsedModule.filePath cycleModules = [[], ''a'', ''b'']"
    by (simp add: cycleModules_def)
  ultimately show ?thesis using parseAll_cycle by blast
qed


subsection \<open>The top-level operation\<close>

lemma entryFor_throws: "entryFor C T p f = Inl e \<Longrightarrow> e = JsTypeError"
  by (auto simp: entryFor_def Let_def split: option.splits if_splits table_value.splits)

lemma calculateRamCost_throws: "calculateRamCost C T p fs = Inl e \<Longrightarrow> e = JsTypeError"
  by (auto simp: calculateRamCost_def Let_def split: sum.splits
           dest!: map_throwing_throws entryFor_throws)

lemma parseAll_throws:
  assumes "parseAll io builder src scripts = Some (Inl e)"
  shows "thrown_by_analyzer e"
proof (cases "parseScript (parse io) [] src")
  case (Inl e')
  with assms have "e = e'" by (simp add: parseAll_def)
  with Inl parseScript_throws [of "parse io" "[]" src e] show ?thesis by auto
next
  case (Inr entry)
  with assms show ?thesis by (simp add: parseAll_def parseAll_loop_throws)
qed

lemma try_throws:
  assumes "calculateRamUsage_try io C T p src scripts = Some (Inl e)"
  shows "thrown_by_analyzer e"
proof (cases "parseAll io new_InvocationTreeBuilder src scripts")
  case None
  with assms show ?thesis by (simp add: calculateRamUsage_try_def)
next
  case (Some outcome)
  show ?thesis
  proof (cases outcome)
    case (Inl e')
    with Some assms have "e = e'" by (simp add: calculateRamUsage_try_def)
    with Some Inl show ?thesis by (simp add: parseAll_throws)
  next
    case (Inr parseResults)
    with Some assms have "calculateRamCost C T p
        (unresolvedFunctions (findAllCalledFunctions parseResults defaultEntryPoint)) = Inl e"
      by (simp add: calculateRamUsage_try_def)
    from calculateRamCost_throws [OF this] show ?thesis by simp
  qed
qed

lemma try_broken:
  "calculateRamUsage_try exampleHost exampleConstants exampleCosts () brokenMain []
     = Some (Inl JsSyntaxError)"
  by (simp add: calculateRamUsage_try_def parseAll_def parseScript_def exampleHost_def
        exampleParse_def brokenMain_def emptyMain_def hackMain_def stanekMain_def chainMain_def
        cycleMain_def cycleA_def cycleB_def dq_def hackTwiceMain_def twoReceiversMain_def
        twoFilesMain_def libHack_def)

lemma try_chain:
  "calculateRamUsage_try exampleHost exampleConstants exampleCosts () chainMain []
     = Some (Inl JsTypeError)"
  by (simp add: calculateRamUsage_try_def parseAll_def parseScript_def
        exampleHost_def exampleParse_def chainMain_def emptyMain_def hackMain_def stanekMain_def
        chainMainAst_def parseFunctionOrClass_def calleeNames_def
        recordFunctionCall_def new_InvocationTreeBuilder_def uniq_def uniqWith_def
        parseAll_loop.simps findAllCalledFunctions_def defaultEntryPoint_def processNext_def
        findCurrentFn_def isEqual_def isAlreadyProcessed_def calculateRamCost_def
        entryFor_def specialKeyChecks_def exampleCosts_def Let_def)

lemma try_missing_import:
  "calculateRamUsage_try exampleHost exampleConstants exampleCosts () cycleMain []
     = Some (Inl (RamCalculationException ImportError
                    (''Imported module a can'' @ [CHR 0x27] @ ''t be found'')))"
  by (simp add: calculateRamUsage_try_def parseAll_def parseScript_def exampleHost_def exampleParse_def
        cycleMain_def cycleA_def cycleB_def dq_def emptyMain_def hackMain_def stanekMain_def chainMain_def
        cycleMainAst_def parseImport_def parseFunctionOrClass_def calleeNames_def recordFunctionCall_def
        new_InvocationTreeBuilder_def uniq_def uniqWith_def parseAll_loop.simps startsWith_def
        Let_def)

text \<open>
  Claim C3, as amended.  Whenever the body of the \<open>try\<close> block ends, normally or by a
  throw, \<open>calculateRamUsage\<close> returns a calculation: no error escapes.  After a throw the
  result is \<open>{ cost: errorCode }\<close> with no entries, where \<open>errorCode\<close> is the \<open>code\<close> field of
  the thrown value when it has one, and the code SyntaxError otherwise.
\<close>

theorem errors_become_costs:
  assumes "calculateRamUsage_try io C T p codeCopy otherScripts = Some outcome"
  shows "\<exists>r. calculateRamUsage io codeNumber C T p codeCopy otherScripts = Some r
          \<and> (\<forall>e. outcome = Inl e \<longrightarrow>
                r = \<lparr>cost = JsNumber (codeNumber (case thrown_code e of
                                                    Some c \<Rightarrow> c
                                                  | None \<Rightarrow> SyntaxError)),
                     entries = None\<rparr>)"
  using assms by (cases outcome) (simp_all add: calculateRamUsage_def)

theorem errors_become_costs_witness:
  "calculateRamUsage_try exampleHost exampleConstants exampleCosts () cycleMain []
     = Some (Inl (RamCalculationException ImportError
                    (''Imported module a can'' @ [CHR 0x27] @ ''t be found'')))
   \<and> calculateRamUsage exampleHost exampleCodes exampleConstants exampleCosts () cycleMain []
     = Some \<lparr>cost = JsNumber (- 2), entries = None\<rparr>"
  using errors_become_costs [OF try_missing_import, of exampleCodes] try_missing_import
  by (auto simp: exampleCodes_def)

text \<open>
  The returned code is not always a field of the thrown value: the SyntaxError of the
  front end and a TypeError have no \<open>code\<close> field, and both are reported with the code
  SyntaxError.
\<close>

theorem code_field_absent:
  "calculateRamUsage_try exampleHost exampleConstants exampleCosts () brokenMain []
     = Some (Inl JsSyntaxError)
   \<and> thrown_code JsSyntaxError = None
   \<and> calculateRamUsage exampleHost exampleCodes exampleConstants exampleCosts () brokenMain []
     = Some \<lparr>cost = JsNumber (exampleCodes SyntaxError), entries = None\<rparr>
   \<and> calculateRamUsage_try exampleHost exampleConstants exampleCosts () chainMain []
     = Some (Inl JsTypeError)
   \<and> thrown_code JsTypeError = None
   \<and> calculateRamUsage exampleHost exampleCodes exampleConstants exampleCosts () chainMain []
     = Some \<lparr>cost = JsNumber (exampleCodes SyntaxError), entries = None\<rparr>"
  by (simp add: try_broken try_chain calculateRamUsage_def)

text \<open>
  Claim C10.  The values that reach the \<open>catch\<close> are the SyntaxError of the front end, a
  TypeError, and the analyzer's own exception with the code ImportError or
  URLImportError.  A thrown value without a \<open>code\<close> field is reported as the code
  SyntaxError; a thrown value with a \<open>code\<close> field is reported as that code.
\<close>

theorem catch_reports_code:
  assumes "calculateRamUsage_try io C T p codeCopy otherScripts = Some (Inl e)"
  shows "(e = JsSyntaxError \<or> e = JsTypeError
            \<or> (\<exists>message. e = RamCalculationException ImportError message)
            \<or> (\<exists>message. e = RamCalculationException URLImportError message))
       \<and> (thrown_code e = None \<longrightarrow>
            calculateRamUsage io codeNumber C T p codeCopy otherScripts
              = Some \<lparr>cost = JsNumber (codeNumber SyntaxError), entries = None\<rparr>)
       \<and> (\<forall>c. thrown_code e = Some c \<longrightarrow>
            calculateRamUsage io codeNumber C T p codeCopy otherScripts
              = Some \<lparr>cost = JsNumber (codeNumber c), entries = None\<rparr>)"
proof -
  from try_throws [OF assms]
  have "e = JsSyntaxError \<or> e = JsTypeError
          \<or> (\<exists>message. e = RamCalculationException ImportError message)
          \<or> (\<exists>message. e = RamCalculationException URLImportError message)"
    by (cases e) auto
  then show ?thesis using assms by (auto simp: calculateRamUsage_def)
qed

theorem catch_reports_code_witness:
  "calculateRamUsage_try exampleHost exampleConstants exampleCosts () brokenMain []
     = Some (Inl JsSyntaxError)
   \<and> calculateRamUsage exampleHost exampleCodes exampleConstants exampleCosts () brokenMain []
     = Some \<lparr>cost = JsNumber (exampleCodes SyntaxError), entries = None\<rparr>
   \<and> calculateRamUsage_try exampleHost exampleConstants exampleCosts () cycleMain []
     = Some (Inl (RamCalculationException ImportError
                    (''Imported module a can'' @ [CHR 0x27] @ ''t be found'')))
   \<and> calculateRamUsage exampleHost exampleCodes exampleConstants exampleCosts () cycleMain []
     = Some \<lparr>cost = JsNumber (exampleCodes ImportError), entries = None\<rparr>"
  using catch_reports_code [OF try_broken, of exampleCodes]
        catch_reports_code [OF try_missing_import, of exampleCodes]
        try_broken try_missing_import
  by simp


end
